theory Spec2Isabelle
  imports Complex_Main
begin

section \<open>CodeFlow Sentinel: the anomaly-detection sidecar of sentinel.py\<close>

text \<open>
  The development embeds \<^verbatim>\<open>src/codeflow-sentinel/sentinel.py\<close>: the request handler
  \<^verbatim>\<open>analyze_flow\<close>, the retraining step \<^verbatim>\<open>update_anomaly_detector\<close>, the feature
  extraction and the explainer \<^verbatim>\<open>explain_async\<close> with its rule-based fallback.

  Python floats are read as \<^typ>\<open>real\<close>, Python ints as \<^typ>\<open>int\<close>, a \<^verbatim>\<open>datetime\<close> as a
  point on an integer time line. The conversion \<^verbatim>\<open>float(n)\<close> of an int is written out: it
  rounds to 53 significant bits and raises on an int too large for a double. The module's globals (\<^verbatim>\<open>telemetry_history\<close>,
  \<^verbatim>\<open>anomaly_detector\<close>, \<^verbatim>\<open>features_window\<close>) and the logger's output form an explicit
  state that every operation takes and returns. The Prometheus metric objects are only
  ever written to, so they are left out of the state; the flag
  \<^verbatim>\<open>PROMETHEUS_AVAILABLE\<close> that guards them is kept, because control flow depends on it.
\<close>

subsection \<open>Exceptions\<close>

datatype exn =
    IndexError
  | KeyError
  | TypeError
  | AttributeError
  | OverflowError
  | LibraryError string

text \<open>Sequencing of steps that may raise: the first exception ends the block.\<close>

definition and_then :: "exn + 'a \<Rightarrow> ('a \<Rightarrow> exn + 'b) \<Rightarrow> exn + 'b" where
  "and_then r f = (case r of Inl e \<Rightarrow> Inl e | Inr v \<Rightarrow> f v)"

subsection \<open>Data model\<close>

type_synonym datetime = int

record TelemetryData =
  latency :: real
  input_length :: int
  errors :: int
  route :: string
  user_id :: "string option"
  timestamp :: "datetime option"

record AnalysisResponse =
  status :: string
  action :: "string option"
  reason :: "string option"
  prediction_score :: "real option"
  confidence :: "real option"

text \<open>One entry of \<^verbatim>\<open>telemetry_history\<close>: the dictionary with the keys
  \<^verbatim>\<open>features\<close>, \<^verbatim>\<open>telemetry\<close> and \<^verbatim>\<open>timestamp\<close>.\<close>

record history_entry =
  entry_features :: "real list"
  entry_telemetry :: TelemetryData
  entry_timestamp :: datetime

datatype log_event =
    LogRetrained nat
  | LogTrainFailed exn
  | LogDetectionFailed exn
  | LogExplanationFailed exn

text \<open>The globals of the module, with the log. The type \<^typ>\<open>'m\<close> is the type of
  \<^verbatim>\<open>IsolationForest\<close> objects.\<close>

record 'm sentinel_state =
  telemetry_history :: "history_entry list"
  anomaly_detector :: "'m option"
  features_window :: "real list list"
  log :: "log_event list"

definition init_state :: "'m sentinel_state" where
  "init_state = \<lparr>telemetry_history = [], anomaly_detector = None,
                 features_window = [], log = []\<rparr>"

subsection \<open>JSON values and the HTTP response of the explainer\<close>

datatype json =
    JNull
  | JBool bool
  | JNum real
  | JStr string
  | JList "json list"
  | JDict "(string \<times> json) list"

record http_response =
  status_code :: int
  json_body :: "exn + json"

text \<open>\<^verbatim>\<open>obj.get(key, default)\<close>: only a dictionary has the method.\<close>

fun dict_get :: "json \<Rightarrow> string \<Rightarrow> json \<Rightarrow> exn + json" where
  "dict_get (JDict kvs) k d = Inr (case map_of kvs k of Some v \<Rightarrow> v | None \<Rightarrow> d)"
| "dict_get _ k d = Inl AttributeError"

text \<open>\<^verbatim>\<open>obj[0]\<close>: the first element of a list or string; a dictionary parsed from JSON
  has string keys only, so the key \<^verbatim>\<open>0\<close> is missing; other values are not subscriptable.\<close>

fun index0 :: "json \<Rightarrow> exn + json" where
  "index0 (JList []) = Inl IndexError"
| "index0 (JList (x # xs)) = Inr x"
| "index0 (JStr []) = Inl IndexError"
| "index0 (JStr (c # cs)) = Inr (JStr [c])"
| "index0 (JDict kvs) = Inl KeyError"
| "index0 _ = Inl TypeError"

text \<open>\<^verbatim>\<open>str.strip()\<close>: characters are code points below 256; the white space among
  them is what \<^verbatim>\<open>str.isspace\<close> accepts.\<close>

definition is_space :: "char \<Rightarrow> bool" where
  "is_space c = (c \<in> set [CHR '' '', CHR 0x09, CHR 0x0A, CHR 0x0B, CHR 0x0C, CHR 0x0D,
                           CHR 0x1C, CHR 0x1D, CHR 0x1E, CHR 0x1F, CHR 0x85, CHR 0xA0])"

definition strip :: "string \<Rightarrow> string" where
  "strip s = rev (dropWhile is_space (rev (dropWhile is_space s)))"

fun json_strip :: "json \<Rightarrow> exn + string" where
  "json_strip (JStr s) = Inr (strip s)"
| "json_strip _ = Inl AttributeError"

subsection \<open>The environment: configuration and external collaborators\<close>

text \<open>
  The scikit-learn library and the Ollama server are not part of the repository; they are
  parameters. \<open>new_forest\<close> is the object made by
  \<^verbatim>\<open>IsolationForest(contamination=..., random_state=42, n_estimators=100)\<close>, a constructor
  that only records its parameters. \<open>fit\<close> mutates the object in place and may raise:
  it gives the object's state afterwards and the exception, if any. \<open>forest_bool\<close> is
  the truth value of the object in \<^verbatim>\<open>if anomaly_detector and ...\<close>, which the class
  decides. \<open>llm_post\<close> is the outcome of the \<^verbatim>\<open>client.post\<close> call for the prompt built
  from the features and the route: an exception (a time-out among them) or a response.
\<close>

record 'm env =
  PROMETHEUS_AVAILABLE :: bool
  SENTINEL_HISTORY_MAX :: nat
  new_forest :: 'm
  fit :: "'m \<Rightarrow> real list list \<Rightarrow> 'm \<times> exn option"
  forest_bool :: "'m \<Rightarrow> exn + bool"
  decision_function :: "'m \<Rightarrow> real list \<Rightarrow> exn + real"
  predict :: "'m \<Rightarrow> real list \<Rightarrow> exn + int"
  llm_post :: "real list \<Rightarrow> string \<Rightarrow> exn + http_response"

subsection \<open>The bounded history\<close>

text \<open>\<^verbatim>\<open>deque(maxlen=n).append(x)\<close>: the new entry goes to the right end, and entries
  beyond the capacity are dropped from the left end.\<close>

definition deque_append :: "nat \<Rightarrow> 'a list \<Rightarrow> 'a \<Rightarrow> 'a list" where
  "deque_append maxlen xs x = (let ys = xs @ [x] in drop (length ys - maxlen) ys)"

subsection \<open>\<^verbatim>\<open>float\<close> of an int\<close>

text \<open>
  \<^verbatim>\<open>float(n)\<close> gives the double nearest to \<open>n\<close>, ties going to the even mantissa, and
  raises \<^verbatim>\<open>OverflowError\<close> when that would be \<open>2 ^ 1024\<close> or beyond, that is, from
  \<open>2 ^ 1024 - 2 ^ 970\<close> on in magnitude. An int of at most 53 bits is represented exactly.
\<close>

function bit_length :: "int \<Rightarrow> nat" where
  "bit_length n = (if n \<le> 0 then 0 else Suc (bit_length (n div 2)))"
  by pat_completeness auto
termination
  by (relation "measure nat") auto

definition round_to_double :: "int \<Rightarrow> int" where
  "round_to_double n =
     (if \<bar>n\<bar> \<le> 2 ^ 53 then n
      else
        let a = \<bar>n\<bar>; e = bit_length a - 53; q = a div 2 ^ e; r = a mod 2 ^ e;
            half = 2 ^ (e - 1);
            q' = (if r > half \<or> (r = half \<and> odd q) then q + 1 else q)
        in sgn n * (q' * 2 ^ e))"

definition float_overflow_bound :: int where
  "float_overflow_bound = 2 ^ 1024 - 2 ^ 970"

definition py_float :: "int \<Rightarrow> exn + real" where
  "py_float n =
     (if \<bar>n\<bar> \<ge> float_overflow_bound then Inl OverflowError
      else Inr (of_int (round_to_double n)))"

subsection \<open>\<^verbatim>\<open>extract_features\<close>\<close>

text \<open>\<^verbatim>\<open>float(telemetry.latency)\<close> is the float itself; the two int fields go through the
  conversion, in the order of the list.\<close>

definition extract_features :: "TelemetryData \<Rightarrow> exn + real list" where
  "extract_features telemetry =
     and_then (py_float (input_length telemetry)) (\<lambda>input_len.
     and_then (py_float (errors telemetry)) (\<lambda>errs.
       Inr [latency telemetry, input_len, errs]))"

subsection \<open>\<^verbatim>\<open>explain_async\<close>\<close>

text \<open>The rule chain after the \<^verbatim>\<open>try\<close> block. It reads \<^verbatim>\<open>features[0..2]\<close>, which
  raises on a shorter list.\<close>

definition fallback_rules :: "real list \<Rightarrow> exn + string" where
  "fallback_rules features =
     (if length features < 3 then Inl IndexError
      else
        let lat = features ! 0; input_len = features ! 1; errs = features ! 2 in
        if lat > 5000 then
          Inr ''Unusually high latency detected, possible resource exhaustion or DoS attempt''
        else if errs > 5 then
          Inr ''High error rate suggests potential attack or system degradation''
        else if input_len > 10000 then
          Inr ''Excessive input size may indicate buffer overflow attempt''
        else
          Inr ''Unusual combination of telemetry metrics detected'')"

text \<open>The expression
  \<^verbatim>\<open>result.get("choices", [{}])[0].get("message", {}).get("content", "").strip()\<close>.\<close>

definition message_content :: "json \<Rightarrow> exn + string" where
  "message_content result =
     and_then (dict_get result ''choices'' (JList [JDict []])) (\<lambda>choices.
     and_then (index0 choices) (\<lambda>choice.
     and_then (dict_get choice ''message'' (JDict [])) (\<lambda>message.
     and_then (dict_get message ''content'' (JStr [])) json_strip)))"

text \<open>The \<^verbatim>\<open>try\<close> block: \<open>Inr (Some text)\<close> when it returns the explanation,
  \<open>Inr None\<close> when control leaves it without a return, \<open>Inl e\<close> when it raises
  (building the prompt reads \<^verbatim>\<open>features[0..2]\<close> too).\<close>

definition primary_explanation :: "'m env \<Rightarrow> real list \<Rightarrow> string \<Rightarrow> exn + string option" where
  "primary_explanation env features rt =
     (if length features < 3 then Inl IndexError
      else
        and_then (llm_post env features rt) (\<lambda>response.
          if status_code response = 200 then
            and_then (json_body response) (\<lambda>result.
            and_then (message_content result) (\<lambda>explanation.
              if explanation \<noteq> [] then Inr (Some explanation) else Inr None))
          else Inr None))"

text \<open>The whole function: what it logs and what it returns or raises.\<close>

definition explain_async :: "'m env \<Rightarrow> real list \<Rightarrow> string \<Rightarrow> log_event list \<times> (exn + string)" where
  "explain_async env features rt =
     (case primary_explanation env features rt of
        Inr (Some explanation) \<Rightarrow> ([], Inr explanation)
      | Inr None \<Rightarrow> ([], fallback_rules features)
      | Inl e \<Rightarrow> ([LogExplanationFailed e], fallback_rules features))"

subsection \<open>\<^verbatim>\<open>update_anomaly_detector\<close>\<close>

text \<open>The global is assigned the new object before \<^verbatim>\<open>fit\<close> runs on it, so the
  assignment stands whether or not \<^verbatim>\<open>fit\<close> raises.\<close>

definition update_anomaly_detector :: "'m env \<Rightarrow> 'm sentinel_state \<Rightarrow> 'm sentinel_state" where
  "update_anomaly_detector env s =
     (if length (features_window s) < 10 then s
      else
        case fit env (new_forest env) (features_window s) of
          (m, None) \<Rightarrow>
            s\<lparr>anomaly_detector := Some m,
              log := log s @ [LogRetrained (length (features_window s))]\<rparr>
        | (m, Some e) \<Rightarrow>
            s\<lparr>anomaly_detector := Some m, log := log s @ [LogTrainFailed e]\<rparr>)"

subsection \<open>\<^verbatim>\<open>analyze_flow\<close>\<close>

definition ok_response :: AnalysisResponse where
  "ok_response = \<lparr>status = ''OK'', action = None, reason = None,
                   prediction_score = None, confidence = None\<rparr>"

text \<open>The body of the inner \<^verbatim>\<open>try\<close>: \<open>Inr (Some r)\<close> is the response returned from
  inside it, \<open>Inr None\<close> is falling through, \<open>Inl e\<close> is the exception the
  \<^verbatim>\<open>except\<close> clause then logs.\<close>

definition detect :: "'m env \<Rightarrow> 'm \<Rightarrow> real list \<Rightarrow> string
    \<Rightarrow> log_event list \<times> (exn + AnalysisResponse option)" where
  "detect env m features rt =
     (case decision_function env m features of
        Inl e \<Rightarrow> ([], Inl e)
      | Inr score \<Rightarrow>
          (case predict env m features of
             Inl e \<Rightarrow> ([], Inl e)
           | Inr prediction \<Rightarrow>
               if prediction = - 1 then
                 (case explain_async env features rt of
                    (evs, Inl e) \<Rightarrow> (evs, Inl e)
                  | (evs, Inr rsn) \<Rightarrow>
                      (evs, Inr (Some \<lparr>status = ''THREAT_DETECTED'',
                                        action = Some ''freeze'',
                                        reason = Some rsn,
                                        prediction_score = Some (- score),
                                        confidence = Some (min (\<bar>score\<bar> * 10) 1)\<rparr>)))
               else ([], Inr None)))"

text \<open>The test \<^verbatim>\<open>anomaly_detector and len(features_window) >= 10\<close>, which is outside the
  \<^verbatim>\<open>try\<close>: \<^verbatim>\<open>None\<close> is false without a call, any other object is asked for its
  truth value. The result is the detector to score with, if the test passes.\<close>

definition detector_ready :: "'m env \<Rightarrow> 'm sentinel_state \<Rightarrow> exn + 'm option" where
  "detector_ready env s =
     (case anomaly_detector s of
        None \<Rightarrow> Inr None
      | Some m \<Rightarrow>
          and_then (forest_bool env m) (\<lambda>b.
            Inr (if b \<and> length (features_window s) \<ge> 10 then Some m else None)))"

text \<open>
  The handler. Its result is the state afterwards, the request object afterwards (the
  handler assigns to its \<^verbatim>\<open>timestamp\<close>), and the outcome: \<open>Inl e\<close> for an exception
  that leaves the handler, \<open>Inr (Some r)\<close> for the response \<open>r\<close>, \<open>Inr None\<close> for
  reaching the end of the function body without a \<^verbatim>\<open>return\<close>. The whole body is nested
  under \<^verbatim>\<open>if PROMETHEUS_AVAILABLE\<close>. The call of \<^verbatim>\<open>extract_features\<close> is outside every
  \<^verbatim>\<open>try\<close> and comes before the appends and the assignment of the time stamp, so an
  exception there leaves state and request as they were.
\<close>

definition analyze_flow :: "'m env \<Rightarrow> datetime \<Rightarrow> 'm sentinel_state \<Rightarrow> TelemetryData
    \<Rightarrow> 'm sentinel_state \<times> TelemetryData \<times> (exn + AnalysisResponse option)" where
  "analyze_flow env now s telemetry =
     (if PROMETHEUS_AVAILABLE env then
        case extract_features telemetry of
          Inl e \<Rightarrow> (s, telemetry, Inl e)
        | Inr features \<Rightarrow>
            let s1 = s\<lparr>features_window := features_window s @ [features]\<rparr>;
                telemetry' = (if timestamp telemetry = None
                              then telemetry\<lparr>timestamp := Some now\<rparr> else telemetry);
                s2 = s1\<lparr>telemetry_history :=
                          deque_append (SENTINEL_HISTORY_MAX env) (telemetry_history s1)
                            \<lparr>entry_features = features, entry_telemetry = telemetry',
                             entry_timestamp =
                               (case timestamp telemetry' of Some ts \<Rightarrow> ts | None \<Rightarrow> now)\<rparr>\<rparr>;
                s3 = (if length (features_window s2) mod 50 = 0
                      then update_anomaly_detector env s2 else s2)
            in
              case detector_ready env s3 of
                Inl e \<Rightarrow> (s3, telemetry', Inl e)
              | Inr None \<Rightarrow> (s3, telemetry', Inr (Some ok_response))
              | Inr (Some m) \<Rightarrow>
                  (case detect env m features (route telemetry') of
                     (evs, Inr (Some r)) \<Rightarrow>
                       (s3\<lparr>log := log s3 @ evs\<rparr>, telemetry', Inr (Some r))
                   | (evs, Inr None) \<Rightarrow>
                       (s3\<lparr>log := log s3 @ evs\<rparr>, telemetry', Inr (Some ok_response))
                   | (evs, Inl e) \<Rightarrow>
                       (s3\<lparr>log := log s3 @ evs @ [LogDetectionFailed e]\<rparr>, telemetry',
                        Inr (Some ok_response)))
      else (s, telemetry, Inr None))"

text \<open>The service over time: requests are handled one after another, whatever the
  outcome of each.\<close>

fun run_requests :: "'m env \<Rightarrow> 'm sentinel_state \<Rightarrow> (datetime \<times> TelemetryData) list
    \<Rightarrow> 'm sentinel_state" where
  "run_requests env s [] = s"
| "run_requests env s (r # rs) = run_requests env (fst (analyze_flow env (fst r) s (snd r))) rs"

subsection \<open>The handler in stages\<close>

text \<open>The steps of \<^verbatim>\<open>analyze_flow\<close>, named one by one: the request with its time
  stamp filled in, the state after the two appends, the state after the periodic
  retraining, and the scoring with the response it leads to.\<close>

definition stamped :: "datetime \<Rightarrow> TelemetryData \<Rightarrow> TelemetryData" where
  "stamped now telemetry =
     (if timestamp telemetry = None then telemetry\<lparr>timestamp := Some now\<rparr> else telemetry)"

definition appended :: "'m env \<Rightarrow> datetime \<Rightarrow> 'm sentinel_state \<Rightarrow> TelemetryData \<Rightarrow> real list
    \<Rightarrow> 'm sentinel_state" where
  "appended env now s telemetry features =
     s\<lparr>features_window := features_window s @ [features],
       telemetry_history :=
         deque_append (SENTINEL_HISTORY_MAX env) (telemetry_history s)
           \<lparr>entry_features = features,
            entry_telemetry = stamped now telemetry,
            entry_timestamp =
              (case timestamp (stamped now telemetry) of Some ts \<Rightarrow> ts | None \<Rightarrow> now)\<rparr>\<rparr>"

definition retrained :: "'m env \<Rightarrow> 'm sentinel_state \<Rightarrow> 'm sentinel_state" where
  "retrained env s =
     (if length (features_window s) mod 50 = 0 then update_anomaly_detector env s else s)"

definition respond :: "'m env \<Rightarrow> 'm sentinel_state \<Rightarrow> real list \<Rightarrow> string
    \<Rightarrow> 'm sentinel_state \<times> (exn + AnalysisResponse option)" where
  "respond env s features rt =
     (case detector_ready env s of
        Inl e \<Rightarrow> (s, Inl e)
      | Inr None \<Rightarrow> (s, Inr (Some ok_response))
      | Inr (Some m) \<Rightarrow>
          (case detect env m features rt of
             (evs, Inr (Some r)) \<Rightarrow> (s\<lparr>log := log s @ evs\<rparr>, Inr (Some r))
           | (evs, Inr None) \<Rightarrow> (s\<lparr>log := log s @ evs\<rparr>, Inr (Some ok_response))
           | (evs, Inl e) \<Rightarrow>
               (s\<lparr>log := log s @ evs @ [LogDetectionFailed e]\<rparr>, Inr (Some ok_response))))"

subsection \<open>Requests that append\<close>

text \<open>A request reaches the two appends (lines 206 and 212) when the metrics library is
  present and \<^verbatim>\<open>extract_features\<close> (line 205) returns.\<close>

definition appends :: "'m env \<Rightarrow> TelemetryData \<Rightarrow> bool" where
  "appends env telemetry =
     (PROMETHEUS_AVAILABLE env
      \<and> (case extract_features telemetry of Inl e \<Rightarrow> False | Inr features \<Rightarrow> True))"

subsection \<open>Observations on the log\<close>

text \<open>A rebuild is a pass through the training step of \<^verbatim>\<open>update_anomaly_detector\<close>; it
  leaves one line in the log, \<^verbatim>\<open>Re-trained anomaly detector ...\<close> or
  \<^verbatim>\<open>Failed to train anomaly detector ...\<close>.\<close>

fun is_rebuild :: "log_event \<Rightarrow> bool" where
  "is_rebuild (LogRetrained n) = True"
| "is_rebuild (LogTrainFailed e) = True"
| "is_rebuild _ = False"

definition rebuilds :: "log_event list \<Rightarrow> nat" where
  "rebuilds evs = length (filter is_rebuild evs)"

subsection \<open>The confidence formula of the specification\<close>

text \<open>Section 4.3 of the specification, in its own words:
  \<^verbatim>\<open>confidence = min(|s(x) - 0.5| * scaleFactor, 1.0)\<close>, to be compared with what
  \<open>detect\<close> computes.\<close>

definition spec_confidence :: "real \<Rightarrow> real \<Rightarrow> real" where
  "spec_confidence scaleFactor s = min (\<bar>s - 1 / 2\<bar> * scaleFactor) 1"

subsection \<open>A concrete environment\<close>

text \<open>
  A small stand-in for the library, to run the handler on: a forest is either not fitted
  or fitted on a number of rows. Fitting rejects a latency beyond the largest 32-bit
  float, as scikit-learn's input validation does (the forest stores its data as
  \<^verbatim>\<open>float32\<close>). An unfitted forest has no truth value and no scores, as a scikit-learn
  ensemble has none before \<^verbatim>\<open>fit\<close> (its length is that of \<^verbatim>\<open>estimators_\<close>). A fitted one
  flags latencies above 1000 or below 0. The explainer's server is unreachable.
\<close>

datatype demo_forest = Unfitted | Fitted nat

definition demo_fit :: "demo_forest \<Rightarrow> real list list \<Rightarrow> demo_forest \<times> exn option" where
  "demo_fit m X =
     (if list_ex (\<lambda>row. hd row > 340282346638528859811704183484516925440) X
      then (m, Some (LibraryError ''Input X contains infinity or a value too large for float32''))
      else (Fitted (length X), None))"

fun demo_bool :: "demo_forest \<Rightarrow> exn + bool" where
  "demo_bool Unfitted = Inl AttributeError"
| "demo_bool (Fitted n) = Inr True"

fun demo_decision_function :: "demo_forest \<Rightarrow> real list \<Rightarrow> exn + real" where
  "demo_decision_function Unfitted x = Inl (LibraryError ''not fitted'')"
| "demo_decision_function (Fitted n) x =
     Inr (if hd x > 1000 \<or> hd x < 0 then - 3 / 100 else 1 / 10)"

fun demo_predict :: "demo_forest \<Rightarrow> real list \<Rightarrow> exn + int" where
  "demo_predict Unfitted x = Inl (LibraryError ''not fitted'')"
| "demo_predict (Fitted n) x = Inr (if hd x > 1000 \<or> hd x < 0 then - 1 else 1)"

definition demo_env :: "demo_forest env" where
  "demo_env = \<lparr>PROMETHEUS_AVAILABLE = True, SENTINEL_HISTORY_MAX = 1000,
               new_forest = Unfitted, fit = demo_fit, forest_bool = demo_bool,
               decision_function = demo_decision_function, predict = demo_predict,
               llm_post = (\<lambda>features rt. Inl (LibraryError ''connection refused''))\<rparr>"

text \<open>The same service on a host where \<^verbatim>\<open>prometheus_client\<close> cannot be imported.\<close>

definition demo_env_no_metrics :: "demo_forest env" where
  "demo_env_no_metrics = demo_env\<lparr>PROMETHEUS_AVAILABLE := False\<rparr>"

text \<open>The same service with the explainer's server answering.\<close>

definition demo_reply :: http_response where
  "demo_reply = \<lparr>status_code = 200,
                  json_body = Inr (JDict [(''choices'',
                    JList [JDict [(''message'',
                      JDict [(''role'', JStr ''assistant''),
                             (''content'', JStr '' Latency spike '')])]])])\<rparr>"

definition demo_env_llm :: "demo_forest env" where
  "demo_env_llm = demo_env\<lparr>llm_post := (\<lambda>features rt. Inr demo_reply)\<rparr>"

text \<open>Requests: an ordinary one, one with a negative latency, one far off the baseline,
  one with the latency \<^verbatim>\<open>1e39\<close>, which the library refuses to train on, and one whose
  \<^verbatim>\<open>input_length\<close> is too large for a float.\<close>

definition normal_sample :: TelemetryData where
  "normal_sample = \<lparr>latency = 200, input_length = 1000, errors = 0,
                    route = ''/api/test'', user_id = None, timestamp = None\<rparr>"

definition negative_sample :: TelemetryData where
  "negative_sample = \<lparr>latency = - 100, input_length = 512, errors = 0,
                      route = ''/api/test'', user_id = None, timestamp = None\<rparr>"

definition anomalous_sample :: TelemetryData where
  "anomalous_sample = \<lparr>latency = 20000, input_length = 20000, errors = 10,
                       route = ''/api/suspicious'', user_id = None, timestamp = Some 5\<rparr>"

definition huge_sample :: TelemetryData where
  "huge_sample = \<lparr>latency = 1000000000000000000000000000000000000000,
                  input_length = 1000, errors = 0,
                  route = ''/api/test'', user_id = None, timestamp = None\<rparr>"

definition oversized_sample :: TelemetryData where
  "oversized_sample = \<lparr>latency = 200, input_length = 2 ^ 1024, errors = 0,
                       route = ''/api/test'', user_id = None, timestamp = None\<rparr>"

text \<open>A state of the running service: a model trained at the 50th request, 60 requests
  seen.\<close>

definition baseline_state :: "demo_forest sentinel_state" where
  "baseline_state = \<lparr>telemetry_history = [], anomaly_detector = Some (Fitted 50),
                     features_window = replicate 60 [200, 1000, 0], log = [LogRetrained 50]\<rparr>"

section \<open>Properties\<close>

subsection \<open>The explainer\<close>

lemma fallback_rules_total:
  "3 \<le> length features \<Longrightarrow> \<exists>txt. fallback_rules features = Inr txt"
  by (simp add: fallback_rules_def Let_def)

lemma explain_async_fallback:
  assumes "\<forall>txt. primary_explanation env features rt \<noteq> Inr (Some txt)"
  shows "snd (explain_async env features rt) = fallback_rules features"
proof (cases "primary_explanation env features rt")
  case (Inl e)
  then show ?thesis by (simp add: explain_async_def)
next
  case (Inr r)
  with assms have "r = None" by (cases r) auto
  with Inr show ?thesis by (simp add: explain_async_def)
qed

text \<open>
  Claim C5. Whenever the explanation comes from the fallback rule chain, that is, whenever
  the primary attempt does not return a text, the rules are tried in a fixed order and the
  first match wins: a latency above 5000 gives the high-latency text; otherwise more than
  5 errors give the error-rate text; otherwise an input length above 10000 gives the
  input-size text; otherwise the generic text. The witness is the sample with latency 6000
  and 8 errors, which gets the latency text.
\<close>

theorem fallback_priority:
  assumes "\<forall>txt. primary_explanation env (lat # input_len # errs # rest) rt \<noteq> Inr (Some txt)"
  shows "(lat > 5000 \<longrightarrow>
            snd (explain_async env (lat # input_len # errs # rest) rt) =
              Inr ''Unusually high latency detected, possible resource exhaustion or DoS attempt'')
       \<and> (\<not> lat > 5000 \<and> errs > 5 \<longrightarrow>
            snd (explain_async env (lat # input_len # errs # rest) rt) =
              Inr ''High error rate suggests potential attack or system degradation'')
       \<and> (\<not> lat > 5000 \<and> \<not> errs > 5 \<and> input_len > 10000 \<longrightarrow>
            snd (explain_async env (lat # input_len # errs # rest) rt) =
              Inr ''Excessive input size may indicate buffer overflow attempt'')
       \<and> (\<not> lat > 5000 \<and> \<not> errs > 5 \<and> \<not> input_len > 10000 \<longrightarrow>
            snd (explain_async env (lat # input_len # errs # rest) rt) =
              Inr ''Unusual combination of telemetry metrics detected'')"
  unfolding explain_async_fallback [OF assms]
  by (simp add: fallback_rules_def)

lemma demo_primary:
  "3 \<le> length features \<Longrightarrow>
   primary_explanation demo_env features rt = Inl (LibraryError ''connection refused'')"
  by (simp add: primary_explanation_def demo_env_def and_then_def)

theorem fallback_priority_witness:
  "(\<forall>txt. primary_explanation demo_env [6000, 1000, 8] ''/api/x'' \<noteq> Inr (Some txt))
   \<and> (6000 :: real) > 5000 \<and> (8 :: real) > 5
   \<and> snd (explain_async demo_env [6000, 1000, 8] ''/api/x'') =
        Inr ''Unusually high latency detected, possible resource exhaustion or DoS attempt''"
proof -
  have h: "\<forall>txt. primary_explanation demo_env [6000, 1000, 8] ''/api/x'' \<noteq> Inr (Some txt)"
    by (simp add: demo_primary)
  from fallback_priority [OF h] h show ?thesis by simp
qed

lemma primary_explanation_Some:
  "primary_explanation env features rt = Inr (Some txt) \<longleftrightarrow>
     3 \<le> length features \<and>
     (\<exists>response body. llm_post env features rt = Inr response \<and> status_code response = 200
        \<and> json_body response = Inr body \<and> message_content body = Inr txt \<and> txt \<noteq> [])"
  by (auto simp: primary_explanation_def and_then_def split: sum.splits if_splits)

text \<open>
  Claim C10. The primary explanation is returned only when the call completes with HTTP
  status 200 and the message content, stripped, is not empty; it is then returned without a
  log line. In every other case the result is that of the fallback rule chain: a status
  other than 200 and a 200 response with empty content fall through silently (nothing is
  logged, nothing is raised), and an exception or time-out of the call gives the same
  result.
\<close>

theorem primary_only_on_200_with_content:
  assumes len: "3 \<le> length features"
  shows "(primary_explanation env features rt = Inr (Some txt) \<longleftrightarrow>
      3 \<le> length features \<and>
      (\<exists>response body. llm_post env features rt = Inr response \<and> status_code response = 200
         \<and> json_body response = Inr body \<and> message_content body = Inr txt \<and> txt \<noteq> []))
   \<and> (primary_explanation env features rt = Inr (Some txt) \<longrightarrow>
        explain_async env features rt = ([], Inr txt))
   \<and> ((\<forall>x. primary_explanation env features rt \<noteq> Inr (Some x)) \<longrightarrow>
        snd (explain_async env features rt) = fallback_rules features)
   \<and> (llm_post env features rt = Inr response \<and> status_code response \<noteq> 200 \<longrightarrow>
        explain_async env features rt = ([], fallback_rules features))
   \<and> (llm_post env features rt = Inr response \<and> status_code response = 200
        \<and> json_body response = Inr body \<and> message_content body = Inr [] \<longrightarrow>
        explain_async env features rt = ([], fallback_rules features))
   \<and> (llm_post env features rt = Inl e \<longrightarrow>
        snd (explain_async env features rt) = fallback_rules features)"
proof (intro conjI impI)
  show "primary_explanation env features rt = Inr (Some txt) \<longleftrightarrow>
      3 \<le> length features \<and>
      (\<exists>response body. llm_post env features rt = Inr response \<and> status_code response = 200
         \<and> json_body response = Inr body \<and> message_content body = Inr txt \<and> txt \<noteq> [])"
    by (rule primary_explanation_Some)
next
  assume "primary_explanation env features rt = Inr (Some txt)"
  then show "explain_async env features rt = ([], Inr txt)"
    by (simp add: explain_async_def)
next
  assume "\<forall>x. primary_explanation env features rt \<noteq> Inr (Some x)"
  then show "snd (explain_async env features rt) = fallback_rules features"
    by (rule explain_async_fallback)
next
  assume "llm_post env features rt = Inr response \<and> status_code response \<noteq> 200"
  then show "explain_async env features rt = ([], fallback_rules features)"
    using len by (simp add: explain_async_def primary_explanation_def and_then_def)
next
  assume "llm_post env features rt = Inr response \<and> status_code response = 200
        \<and> json_body response = Inr body \<and> message_content body = Inr []"
  then show "explain_async env features rt = ([], fallback_rules features)"
    using len by (simp add: explain_async_def primary_explanation_def and_then_def)
next
  assume "llm_post env features rt = Inl e"
  then show "snd (explain_async env features rt) = fallback_rules features"
    using len by (simp add: explain_async_def primary_explanation_def and_then_def)
qed


theorem primary_only_on_200_with_content_witness:
  "3 \<le> length [20000, 20000, 10 :: real]
   \<and> primary_explanation demo_env_llm [20000, 20000, 10] ''/api/x'' = Inr (Some ''Latency spike'')
   \<and> llm_post demo_env_llm [20000, 20000, 10] ''/api/x'' = Inr demo_reply
   \<and> status_code demo_reply = 200
   \<and> explain_async demo_env_llm [20000, 20000, 10] ''/api/x'' = ([], Inr ''Latency spike'')"
proof -
  have len: "3 \<le> length [20000, 20000, 10 :: real]" by simp
  have mc: "message_content (JDict [(''choices'',
                    JList [JDict [(''message'',
                      JDict [(''role'', JStr ''assistant''),
                             (''content'', JStr '' Latency spike '')])]])]) = Inr ''Latency spike''"
    by (simp add: message_content_def and_then_def strip_def is_space_def)
  have post: "llm_post demo_env_llm [20000, 20000, 10] ''/api/x'' = Inr demo_reply"
    by (simp add: demo_env_llm_def demo_env_def)
  have prim: "primary_explanation demo_env_llm [20000, 20000, 10] ''/api/x'' = Inr (Some ''Latency spike'')"
    by (simp add: primary_explanation_def post and_then_def demo_reply_def mc)
  from primary_only_on_200_with_content [OF len, of demo_env_llm "''/api/x''" "''Latency spike''"]
    prim post show ?thesis
    by (simp add: demo_reply_def)
qed

subsection \<open>The stages of the handler\<close>

lemma analyze_flow_stages:
  "analyze_flow env now s t =
     (if PROMETHEUS_AVAILABLE env then
        case extract_features t of
          Inl e \<Rightarrow> (s, t, Inl e)
        | Inr f \<Rightarrow>
            (fst (respond env (retrained env (appended env now s t f)) f (route t)),
             stamped now t,
             snd (respond env (retrained env (appended env now s t f)) f (route t)))
      else (s, t, Inr None))"
proof -
  have rt: "route (stamped now t) = route t"
    by (simp add: stamped_def)
  have ap: "s\<lparr>features_window := features_window s @ [f]\<rparr>
             \<lparr>telemetry_history :=
                deque_append (SENTINEL_HISTORY_MAX env)
                  (telemetry_history (s\<lparr>features_window := features_window s @ [f]\<rparr>))
                  \<lparr>entry_features = f, entry_telemetry = stamped now t,
                   entry_timestamp =
                     (case timestamp (stamped now t) of Some ts \<Rightarrow> ts | None \<Rightarrow> now)\<rparr>\<rparr>
            = appended env now s t f" for f
    by (simp add: appended_def)
  show ?thesis
    unfolding analyze_flow_def Let_def stamped_def [symmetric] ap rt retrained_def [symmetric]
    by (simp add: respond_def split: sum.split option.split prod.split)
qed

lemma analyze_flow_appending:
  "PROMETHEUS_AVAILABLE env \<Longrightarrow> extract_features t = Inr f \<Longrightarrow>
   analyze_flow env now s t =
     (fst (respond env (retrained env (appended env now s t f)) f (route t)),
      stamped now t,
      snd (respond env (retrained env (appended env now s t f)) f (route t)))"
  by (simp add: analyze_flow_stages)

lemma analyze_flow_overflow:
  "PROMETHEUS_AVAILABLE env \<Longrightarrow> extract_features t = Inl e \<Longrightarrow>
   analyze_flow env now s t = (s, t, Inl e)"
  by (simp add: analyze_flow_stages)

lemma analyze_flow_idle:
  "\<not> PROMETHEUS_AVAILABLE env \<Longrightarrow> analyze_flow env now s t = (s, t, Inr None)"
  by (simp add: analyze_flow_stages)

text \<open>When the conversion succeeds, and what it gives.\<close>

lemma py_float_Inr:
  "(\<exists>x. py_float n = Inr x) \<longleftrightarrow> \<bar>n\<bar> < float_overflow_bound"
  by (auto simp: py_float_def)

lemma py_float_small:
  "\<bar>n\<bar> \<le> 2 ^ 53 \<Longrightarrow> py_float n = Inr (of_int n)"
proof -
  assume a: "\<bar>n\<bar> \<le> 2 ^ 53"
  have "(2 :: int) ^ 53 < float_overflow_bound"
    by (simp add: float_overflow_bound_def)
  with a have "\<not> \<bar>n\<bar> \<ge> float_overflow_bound" by linarith
  with a show ?thesis by (simp add: py_float_def round_to_double_def)
qed

lemma extract_features_Inr:
  "(\<exists>f. extract_features t = Inr f) \<longleftrightarrow>
     \<bar>input_length t\<bar> < float_overflow_bound \<and> \<bar>errors t\<bar> < float_overflow_bound"
  by (auto simp: extract_features_def and_then_def py_float_def split: sum.splits)

lemma extract_features_Inl:
  "extract_features t = Inl e \<Longrightarrow> e = OverflowError"
  by (auto simp: extract_features_def and_then_def py_float_def split: sum.splits if_splits)

lemma extract_features_length:
  "extract_features t = Inr f \<Longrightarrow> length f = 3"
  by (auto simp: extract_features_def and_then_def split: sum.splits)

lemma extract_features_small:
  "\<bar>input_length t\<bar> \<le> 2 ^ 53 \<Longrightarrow> \<bar>errors t\<bar> \<le> 2 ^ 53 \<Longrightarrow>
   extract_features t = Inr [latency t, of_int (input_length t), of_int (errors t)]"
  by (simp add: extract_features_def and_then_def py_float_small)

lemma update_window [simp]:
  "features_window (update_anomaly_detector env s) = features_window s"
  by (simp add: update_anomaly_detector_def split: prod.split option.split)

lemma update_history [simp]:
  "telemetry_history (update_anomaly_detector env s) = telemetry_history s"
  by (simp add: update_anomaly_detector_def split: prod.split option.split)

lemma update_rebuilds:
  "rebuilds (log (update_anomaly_detector env s)) =
     rebuilds (log s) + (if 10 \<le> length (features_window s) then 1 else 0)"
  by (simp add: update_anomaly_detector_def rebuilds_def split: prod.split option.split)

lemma update_detector:
  "10 \<le> length (features_window s) \<Longrightarrow>
   anomaly_detector (update_anomaly_detector env s) =
     Some (fst (fit env (new_forest env) (features_window s)))"
  by (simp add: update_anomaly_detector_def split: prod.split option.split)

lemma update_short [simp]:
  "length (features_window s) < 10 \<Longrightarrow> update_anomaly_detector env s = s"
  by (simp add: update_anomaly_detector_def)

lemma appended_window [simp]:
  "features_window (appended env now s t f) = features_window s @ [f]"
  by (simp add: appended_def)

lemma appended_history [simp]:
  "telemetry_history (appended env now s t f) =
     deque_append (SENTINEL_HISTORY_MAX env) (telemetry_history s)
       \<lparr>entry_features = f, entry_telemetry = stamped now t,
        entry_timestamp = (case timestamp (stamped now t) of Some ts \<Rightarrow> ts | None \<Rightarrow> now)\<rparr>"
  by (simp add: appended_def)

lemma appended_detector [simp]:
  "anomaly_detector (appended env now s t f) = anomaly_detector s"
  by (simp add: appended_def)

lemma appended_log [simp]: "log (appended env now s t f) = log s"
  by (simp add: appended_def)

lemma retrained_window [simp]: "features_window (retrained env s) = features_window s"
  by (simp add: retrained_def)

lemma retrained_history [simp]: "telemetry_history (retrained env s) = telemetry_history s"
  by (simp add: retrained_def)

lemma retrain_due:
  "0 < length (features_window s) \<Longrightarrow>
   (length (features_window s) mod 50 = 0 \<and> 10 \<le> length (features_window s))
     = (length (features_window s) mod 50 = 0)"
  by (cases "10 \<le> length (features_window s)") auto

lemma retrained_rebuilds:
  "rebuilds (log (retrained env s)) =
     rebuilds (log s) +
       (if length (features_window s) mod 50 = 0 \<and> 10 \<le> length (features_window s)
        then 1 else 0)"
  by (simp add: retrained_def update_rebuilds)

lemma retrained_detector:
  "length (features_window s) mod 50 = 0 \<Longrightarrow> 10 \<le> length (features_window s) \<Longrightarrow>
   anomaly_detector (retrained env s) = Some (fst (fit env (new_forest env) (features_window s)))"
  by (simp add: retrained_def update_detector)

lemma retrained_not_due:
  "length (features_window s) mod 50 \<noteq> 0 \<Longrightarrow> retrained env s = s"
  by (simp add: retrained_def)

lemma detect_rebuilds: "rebuilds (fst (detect env m features rt)) = 0"
  by (simp add: detect_def explain_async_def rebuilds_def
      split: sum.split option.split prod.split)

lemma detect_status:
  "snd (detect env m features rt) = Inr (Some r) \<Longrightarrow> status r = ''THREAT_DETECTED''"
  by (auto simp: detect_def split: sum.splits option.splits prod.splits if_splits)

lemma detect_confidence:
  "snd (detect env m features rt) = Inr (Some r) \<Longrightarrow>
   \<exists>score. decision_function env m features = Inr score
     \<and> predict env m features = Inr (- 1)
     \<and> prediction_score r = Some (- score)
     \<and> confidence r = Some (min (\<bar>score\<bar> * 10) 1)"
  by (auto simp: detect_def split: sum.splits option.splits prod.splits if_splits)

lemma respond_window [simp]:
  "features_window (fst (respond env s features rt)) = features_window s"
  by (simp add: respond_def split: sum.split option.split prod.split)

lemma respond_history [simp]:
  "telemetry_history (fst (respond env s features rt)) = telemetry_history s"
  by (simp add: respond_def split: sum.split option.split prod.split)

lemma respond_detector [simp]:
  "anomaly_detector (fst (respond env s features rt)) = anomaly_detector s"
  by (simp add: respond_def split: sum.split option.split prod.split)

lemma rebuilds_append [simp]: "rebuilds (xs @ ys) = rebuilds xs + rebuilds ys"
  by (simp add: rebuilds_def)

lemma respond_rebuilds [simp]:
  "rebuilds (log (fst (respond env s features rt))) = rebuilds (log s)"
proof (cases "detector_ready env s")
  case (Inl e)
  then show ?thesis by (simp add: respond_def)
next
  case (Inr r)
  show ?thesis
  proof (cases r)
    case None
    with Inr show ?thesis by (simp add: respond_def)
  next
    case (Some m)
    obtain evs out where d: "detect env m features rt = (evs, out)"
      by (cases "detect env m features rt")
    with detect_rebuilds [of env m features rt] have "rebuilds evs = 0" by simp
    with Inr Some d show ?thesis
      by (simp add: respond_def rebuilds_def split: sum.split option.split)
  qed
qed


lemma respond_scored:
  "snd (respond env s features rt) = Inr (Some r) \<Longrightarrow> status r = ''THREAT_DETECTED'' \<Longrightarrow>
   \<exists>m. anomaly_detector s = Some m \<and> snd (detect env m features rt) = Inr (Some r)"
  by (auto simp: respond_def detector_ready_def and_then_def ok_response_def
      split: sum.splits option.splits prod.splits if_splits)

lemma respond_status:
  "snd (respond env s features rt) = Inr (Some r) \<Longrightarrow>
   status r = ''OK'' \<or> status r = ''THREAT_DETECTED''"
proof -
  assume a: "snd (respond env s features rt) = Inr (Some r)"
  show ?thesis
  proof (cases "status r = ''THREAT_DETECTED''")
    case True
    then show ?thesis by simp
  next
    case False
    have "r = ok_response"
    proof (cases "detector_ready env s")
      case (Inl e)
      with a show ?thesis by (simp add: respond_def)
    next
      case (Inr d)
      show ?thesis
      proof (cases d)
        case None
        with Inr a show ?thesis by (simp add: respond_def)
      next
        case (Some m)
        obtain evs out where d: "detect env m features rt = (evs, out)"
          by (cases "detect env m features rt")
        show ?thesis
        proof (cases "out = Inr (Some r)")
          case True
          with d detect_status [of env m features rt r] False show ?thesis by simp
        next
          case False
          with Inr Some d a show ?thesis
            by (auto simp: respond_def split: sum.splits option.splits)
        qed
      qed
    qed
    then show ?thesis by (simp add: ok_response_def)
  qed
qed

text \<open>The bound of \<^verbatim>\<open>float\<close> as a numeral, for evaluation.\<close>

lemma float_overflow_bound_numeral [code]:
  "float_overflow_bound =
     179769313486231580793728971405303415079934132710037826936173778980444968292764750946649017977587207096330286416692887910946555547851940402630657488671505820681908902000708383676273854845817711531764475730270069855571366959622842914819860834936475292719074168444365510704342711559699508093042880177904174497792"
  by (simp add: float_overflow_bound_def)

subsection \<open>Runs of the service\<close>

lemma appends_iff:
  "appends env t \<longleftrightarrow> PROMETHEUS_AVAILABLE env \<and> (\<exists>f. extract_features t = Inr f)"
  by (simp add: appends_def split: sum.split)

lemma appends_bound:
  "appends env t \<longleftrightarrow>
     PROMETHEUS_AVAILABLE env
     \<and> \<bar>input_length t\<bar> < float_overflow_bound \<and> \<bar>errors t\<bar> < float_overflow_bound"
  by (simp add: appends_iff extract_features_Inr)

lemma analyze_flow_window:
  "PROMETHEUS_AVAILABLE env \<Longrightarrow> extract_features t = Inr f \<Longrightarrow>
   features_window (fst (analyze_flow env now s t)) = features_window s @ [f]"
  by (simp add: analyze_flow_appending)

lemma analyze_flow_history:
  "PROMETHEUS_AVAILABLE env \<Longrightarrow> extract_features t = Inr f \<Longrightarrow>
   telemetry_history (fst (analyze_flow env now s t)) =
     deque_append (SENTINEL_HISTORY_MAX env) (telemetry_history s)
       \<lparr>entry_features = f, entry_telemetry = stamped now t,
        entry_timestamp = (case timestamp (stamped now t) of Some ts \<Rightarrow> ts | None \<Rightarrow> now)\<rparr>"
  by (simp add: analyze_flow_appending)

lemma analyze_flow_not_appending:
  "\<not> appends env t \<Longrightarrow> fst (analyze_flow env now s t) = s"
proof (cases "PROMETHEUS_AVAILABLE env")
  case False
  then show ?thesis by (simp add: analyze_flow_idle)
next
  case True
  assume "\<not> appends env t"
  with True have "\<not> (\<exists>f. extract_features t = Inr f)"
    by (simp add: appends_iff)
  then obtain e where "extract_features t = Inl e"
    by (cases "extract_features t") auto
  with True show ?thesis by (simp add: analyze_flow_overflow)
qed

lemma analyze_flow_window_length:
  "length (features_window (fst (analyze_flow env now s t))) =
     length (features_window s) + (if appends env t then 1 else 0)"
proof (cases "appends env t")
  case False
  then show ?thesis by (simp add: analyze_flow_not_appending)
next
  case True
  then obtain f where "PROMETHEUS_AVAILABLE env" "extract_features t = Inr f"
    by (auto simp: appends_iff)
  with True show ?thesis by (simp add: analyze_flow_window)
qed

lemma run_requests_idle:
  "\<not> PROMETHEUS_AVAILABLE env \<Longrightarrow> run_requests env s rs = s"
  by (induction rs arbitrary: s) (simp_all add: analyze_flow_idle)

lemma run_requests_window_length:
  "length (features_window (run_requests env s rs)) =
     length (features_window s) + length (filter (\<lambda>r. appends env (snd r)) rs)"
  by (induction rs arbitrary: s) (simp_all add: analyze_flow_window_length)

lemma length_deque_append:
  "length (deque_append n xs x) = min n (length xs + 1)"
  by (simp add: deque_append_def Let_def)

lemma analyze_flow_history_length:
  "length (telemetry_history (fst (analyze_flow env now s t))) =
     (if appends env t then min (SENTINEL_HISTORY_MAX env) (length (telemetry_history s) + 1)
      else length (telemetry_history s))"
proof (cases "appends env t")
  case False
  then show ?thesis by (simp add: analyze_flow_not_appending)
next
  case True
  then obtain f where "PROMETHEUS_AVAILABLE env" "extract_features t = Inr f"
    by (auto simp: appends_iff)
  with True show ?thesis by (simp add: analyze_flow_history length_deque_append)
qed

lemma run_requests_history_length:
  "length (telemetry_history s) \<le> SENTINEL_HISTORY_MAX env \<Longrightarrow>
   length (telemetry_history (run_requests env s rs)) =
     min (SENTINEL_HISTORY_MAX env)
       (length (telemetry_history s) + length (filter (\<lambda>r. appends env (snd r)) rs))"
proof (induction rs arbitrary: s)
  case Nil
  then show ?case by simp
next
  case (Cons r rs)
  let ?s = "fst (analyze_flow env (fst r) s (snd r))"
  have len: "length (telemetry_history ?s) =
     (if appends env (snd r)
      then min (SENTINEL_HISTORY_MAX env) (length (telemetry_history s) + 1)
      else length (telemetry_history s))"
    by (rule analyze_flow_history_length)
  with Cons.prems have "length (telemetry_history ?s) \<le> SENTINEL_HISTORY_MAX env" by simp
  from Cons.IH [OF this] len Cons.prems show ?case by (auto simp: min_def)
qed



lemma extract_features_value:
  "extract_features t = Inr f \<Longrightarrow>
   f = [latency t, of_int (round_to_double (input_length t)),
        of_int (round_to_double (errors t))]"
  by (auto simp: extract_features_def and_then_def py_float_def split: sum.splits if_splits)

lemma appends_normal_sample: "appends demo_env normal_sample"
  by (simp add: appends_bound demo_env_def normal_sample_def float_overflow_bound_def)

subsection \<open>Responses of the handler\<close>

lemma explain_async_total:
  "length f = 3 \<Longrightarrow> \<exists>evs txt. explain_async env f rt = (evs, Inr txt)"
proof -
  assume l: "length f = 3"
  then obtain tx where t: "fallback_rules f = Inr tx"
    using fallback_rules_total [of f] by auto
  show ?thesis
  proof (cases "primary_explanation env f rt")
    case (Inl e)
    with t show ?thesis by (simp add: explain_async_def)
  next
    case (Inr r)
    with t show ?thesis by (cases r) (simp_all add: explain_async_def)
  qed
qed

lemma detect_anomaly:
  assumes "length f = 3" "decision_function env m f = Inr d" "predict env m f = Inr (- 1)"
  shows "\<exists>r. snd (detect env m f rt) = Inr (Some r) \<and> status r = ''THREAT_DETECTED''
           \<and> action r = Some ''freeze'' \<and> prediction_score r = Some (- d)
           \<and> confidence r = Some (min (\<bar>d\<bar> * 10) 1)"
proof -
  from explain_async_total [OF assms(1)] obtain evs tx where
    "explain_async env f rt = (evs, Inr tx)" by blast
  with assms(2,3) show ?thesis by (simp add: detect_def)
qed

lemma detect_no_anomaly:
  assumes "\<not> (\<exists>d. decision_function env m f = Inr d \<and> predict env m f = Inr (- 1))"
  shows "\<forall>r. snd (detect env m f rt) \<noteq> Inr (Some r)"
  using assms
  by (auto simp: detect_def split: sum.splits option.splits prod.splits if_splits)

lemma detector_ready_respond [simp]:
  "detector_ready env (fst (respond env s f rt)) = detector_ready env s"
  by (simp add: detector_ready_def respond_window respond_detector split: option.split)

lemma detector_ready_retrained_scoring [simp]:
  "detector_ready (env\<lparr>decision_function := df, predict := pr\<rparr>) s = detector_ready env s"
  by (simp add: detector_ready_def split: option.split)

lemma respond_raises:
  "detector_ready env s = Inl e \<Longrightarrow> respond env s f rt = (s, Inl e)"
  by (simp add: respond_def)

lemma respond_not_ready:
  "detector_ready env s = Inr None \<Longrightarrow> respond env s f rt = (s, Inr (Some ok_response))"
  by (simp add: respond_def)

lemma respond_ready:
  "detector_ready env s = Inr (Some m) \<Longrightarrow>
   snd (respond env s f rt) =
     Inr (Some (case snd (detect env m f rt) of Inr (Some r) \<Rightarrow> r | _ \<Rightarrow> ok_response))"
  by (simp add: respond_def split: sum.split option.split prod.split)

lemma analyze_flow_status:
  "snd (snd (analyze_flow env now s t)) = Inr (Some r) \<Longrightarrow>
   status r = ''OK'' \<or> status r = ''THREAT_DETECTED''"
  by (cases "PROMETHEUS_AVAILABLE env"; cases "extract_features t")
     (auto simp: analyze_flow_stages dest: respond_status)

lemma scoring_fields_appended [simp]:
  "appended (env\<lparr>decision_function := df, predict := pr\<rparr>) now s t f = appended env now s t f"
  by (simp add: appended_def)

lemma scoring_fields_retrained [simp]:
  "retrained (env\<lparr>decision_function := df, predict := pr\<rparr>) s = retrained env s"
  by (simp add: retrained_def update_anomaly_detector_def)

lemma scoring_fields_respond:
  "detector_ready env s = Inl e \<or> detector_ready env s = Inr None \<Longrightarrow>
   respond (env\<lparr>decision_function := df, predict := pr\<rparr>) s f rt = respond env s f rt"
  by (auto simp: respond_def)

text \<open>
  Claim C1, which the code does not meet. The whole body of \<^verbatim>\<open>analyze_flow\<close> is nested
  under \<^verbatim>\<open>if PROMETHEUS_AVAILABLE\<close>, so where the metrics library is absent every request,
  whatever the sample and the state, reaches the end of the function without a response:
  nothing is appended, nothing is scored, and there is no \<^verbatim>\<open>AnalysisResponse\<close> with a
  status.
\<close>

theorem no_response_without_metrics:
  "analyze_flow (env\<lparr>PROMETHEUS_AVAILABLE := False\<rparr>) now s t = (s, t, Inr None)"
  by (simp add: analyze_flow_stages)

text \<open>
  Claim C2, which the code does not meet. \<^verbatim>\<open>features_window\<close> is a plain list that is only
  ever appended to: after 1001 requests, with the capacity at its default of 1000, it holds
  1001 vectors, while the history next to it, a \<^verbatim>\<open>deque\<close> with \<^verbatim>\<open>maxlen\<close>, holds 1000.
\<close>

theorem features_window_unbounded:
  "SENTINEL_HISTORY_MAX demo_env = 1000
   \<and> length (features_window
        (run_requests demo_env init_state (replicate 1001 (0, normal_sample)))) = 1001
   \<and> length (telemetry_history
        (run_requests demo_env init_state (replicate 1001 (0, normal_sample)))) = 1000"
proof -
  have m: "SENTINEL_HISTORY_MAX demo_env = 1000"
    by (simp add: demo_env_def)
  have h: "length (telemetry_history (init_state :: demo_forest sentinel_state))
             \<le> SENTINEL_HISTORY_MAX demo_env"
    by (simp add: init_state_def)
  have c: "length (filter (\<lambda>r. appends demo_env (snd r)) (replicate 1001 (0, normal_sample)))
             = 1001"
    by (simp add: appends_normal_sample)
  have w: "length (features_window
        (run_requests demo_env init_state (replicate 1001 (0, normal_sample)))) = 1001"
    unfolding run_requests_window_length c by (simp add: init_state_def)
  have t: "length (telemetry_history
        (run_requests demo_env init_state (replicate 1001 (0, normal_sample)))) = 1000"
    unfolding run_requests_history_length [OF h] c m by (simp add: init_state_def)
  from m w t show ?thesis by simp
qed

text \<open>
  Claim C3, which the code does not meet. \<^verbatim>\<open>update_anomaly_detector\<close> binds the global to
  the new, unfitted forest before it calls \<^verbatim>\<open>fit\<close>. In this run the forest trained at
  request 50 is in place after 99 requests; request 100 is due for a rebuild, the training
  raises, the failure is logged, and the global then holds the unfitted forest, not the
  one trained at request 50.
\<close>

theorem failed_rebuild_loses_forest:
  "anomaly_detector (run_requests demo_env init_state (replicate 99 (0, normal_sample)))
     = Some (Fitted 50)
   \<and> anomaly_detector
       (run_requests demo_env init_state (replicate 99 (0, normal_sample) @ [(0, huge_sample)]))
     = Some Unfitted
   \<and> log (run_requests demo_env init_state (replicate 99 (0, normal_sample) @ [(0, huge_sample)]))
     = [LogRetrained 50,
        LogTrainFailed (LibraryError ''Input X contains infinity or a value too large for float32'')]"
  by code_simp

text \<open>With this library, whose unfitted forest has no truth value, the request after the
  failed rebuild ends in an exception: the test of \<^verbatim>\<open>anomaly_detector\<close> is outside the
  \<^verbatim>\<open>try\<close>.\<close>

lemma request_after_failed_rebuild:
  "snd (snd (analyze_flow demo_env 0
      (run_requests demo_env init_state (replicate 99 (0, normal_sample) @ [(0, huge_sample)]))
      normal_sample)) = Inl AttributeError"
  by code_simp

text \<open>
  Claim C4, as the code has it. \<^verbatim>\<open>TelemetryData\<close> puts no range on its fields, and the
  handler never looks at their sign. The counterexample is a sample with latency -100: it
  is appended to the window and to the history, and it is scored (here, flagged).
\<close>

theorem negative_sample_counterexample:
  "latency negative_sample < 0
   \<and> features_window (fst (analyze_flow demo_env 0 baseline_state negative_sample))
       = features_window baseline_state @ [[- 100, 512, 0]]
   \<and> map entry_features
       (telemetry_history (fst (analyze_flow demo_env 0 baseline_state negative_sample)))
       = [[- 100, 512, 0]]
   \<and> snd (snd (analyze_flow demo_env 0 baseline_state negative_sample)) =
       Inr (Some \<lparr>status = ''THREAT_DETECTED'', action = Some ''freeze'',
                   reason = Some ''Unusual combination of telemetry metrics detected'',
                   prediction_score = Some (3 / 100), confidence = Some (3 / 10)\<rparr>)"
  by code_simp

text \<open>
  Claim C4, amended: a sample with a negative latency, input length or error count is not
  rejected for it. With the metrics library present, and \<^verbatim>\<open>input_length\<close> and \<^verbatim>\<open>errors\<close>
  within the range of a float (so that \<^verbatim>\<open>extract_features\<close> returns the vector \<open>f\<close>), the
  negative values go into \<open>f\<close> as they are, \<open>f\<close> is appended to the window and an entry
  for it to the history, and the request is answered as any other: it fails only if the
  truth test of the detector in place raises, it is answered \<^verbatim>\<open>OK\<close> if no detector passes
  the test, and otherwise it is scored by that detector, with \<^verbatim>\<open>THREAT_DETECTED\<close> for the
  prediction -1 and \<^verbatim>\<open>OK\<close> in every other case.
\<close>

theorem negative_sample_appended:
  assumes "PROMETHEUS_AVAILABLE env"
    and "latency t < 0 \<or> input_length t < 0 \<or> errors t < 0"
    and "extract_features t = Inr f"
  shows "f = [latency t, of_int (round_to_double (input_length t)),
              of_int (round_to_double (errors t))]
       \<and> features_window (fst (analyze_flow env now s t)) = features_window s @ [f]
       \<and> telemetry_history (fst (analyze_flow env now s t)) =
           deque_append (SENTINEL_HISTORY_MAX env) (telemetry_history s)
             \<lparr>entry_features = f, entry_telemetry = stamped now t,
              entry_timestamp = (case timestamp t of Some ts \<Rightarrow> ts | None \<Rightarrow> now)\<rparr>
       \<and> (\<forall>e. detector_ready env (fst (analyze_flow env now s t)) = Inl e \<longrightarrow>
             snd (snd (analyze_flow env now s t)) = Inl e)
       \<and> (detector_ready env (fst (analyze_flow env now s t)) = Inr None \<longrightarrow>
             snd (snd (analyze_flow env now s t)) = Inr (Some ok_response))
       \<and> (\<forall>m. detector_ready env (fst (analyze_flow env now s t)) = Inr (Some m) \<longrightarrow>
             snd (snd (analyze_flow env now s t)) =
               Inr (Some (case snd (detect env m f (route t)) of
                            Inr (Some r) \<Rightarrow> r | _ \<Rightarrow> ok_response)))
       \<and> (\<forall>m d. detector_ready env (fst (analyze_flow env now s t)) = Inr (Some m)
               \<and> decision_function env m f = Inr d \<and> predict env m f = Inr (- 1) \<longrightarrow>
             (\<exists>r. snd (snd (analyze_flow env now s t)) = Inr (Some r)
                \<and> status r = ''THREAT_DETECTED''
                \<and> prediction_score r = Some (- d)
                \<and> confidence r = Some (min (\<bar>d\<bar> * 10) 1)))"
proof -
  let ?s3 = "retrained env (appended env now s t f)"
  have ts: "(case timestamp (stamped now t) of Some ts \<Rightarrow> ts | None \<Rightarrow> now)
          = (case timestamp t of Some ts \<Rightarrow> ts | None \<Rightarrow> now)"
    by (simp add: stamped_def split: option.split)
  have st: "fst (analyze_flow env now s t) = fst (respond env ?s3 f (route t))"
    and out: "snd (snd (analyze_flow env now s t)) = snd (respond env ?s3 f (route t))"
    using assms(1,3) by (simp_all add: analyze_flow_appending)
  have rd: "detector_ready env (fst (analyze_flow env now s t)) = detector_ready env ?s3"
    unfolding st by simp
  have l: "length f = 3"
    using assms(3) by (rule extract_features_length)
  have 1: "f = [latency t, of_int (round_to_double (input_length t)),
                of_int (round_to_double (errors t))]"
    using assms(3) by (rule extract_features_value)
  have 2: "features_window (fst (analyze_flow env now s t)) = features_window s @ [f]"
    using assms(1,3) by (rule analyze_flow_window)
  have 3: "telemetry_history (fst (analyze_flow env now s t)) =
           deque_append (SENTINEL_HISTORY_MAX env) (telemetry_history s)
             \<lparr>entry_features = f, entry_telemetry = stamped now t,
              entry_timestamp = (case timestamp t of Some ts \<Rightarrow> ts | None \<Rightarrow> now)\<rparr>"
    using analyze_flow_history [OF assms(1,3), of now s] unfolding ts .
  have 4: "snd (snd (analyze_flow env now s t)) = Inl e"
    if "detector_ready env (fst (analyze_flow env now s t)) = Inl e" for e
    using that unfolding rd out by (simp add: respond_raises)
  have 5: "snd (snd (analyze_flow env now s t)) = Inr (Some ok_response)"
    if "detector_ready env (fst (analyze_flow env now s t)) = Inr None"
    using that unfolding rd out by (simp add: respond_not_ready)
  have 6: "snd (snd (analyze_flow env now s t)) =
               Inr (Some (case snd (detect env m f (route t)) of
                            Inr (Some r) \<Rightarrow> r | _ \<Rightarrow> ok_response))"
    if "detector_ready env (fst (analyze_flow env now s t)) = Inr (Some m)" for m
    using that unfolding rd out by (rule respond_ready)
  have 7: "\<exists>r. snd (snd (analyze_flow env now s t)) = Inr (Some r)
                \<and> status r = ''THREAT_DETECTED''
                \<and> prediction_score r = Some (- d)
                \<and> confidence r = Some (min (\<bar>d\<bar> * 10) 1)"
    if "detector_ready env (fst (analyze_flow env now s t)) = Inr (Some m)"
      and "decision_function env m f = Inr d" and "predict env m f = Inr (- 1)" for m d
  proof -
    from detect_anomaly [OF l that(2,3), of "route t"] obtain r where
      r: "snd (detect env m f (route t)) = Inr (Some r)" "status r = ''THREAT_DETECTED''"
         "prediction_score r = Some (- d)" "confidence r = Some (min (\<bar>d\<bar> * 10) 1)"
      by blast
    from 6 [OF that(1)] r(1) have "snd (snd (analyze_flow env now s t)) = Inr (Some r)"
      by simp
    with r show ?thesis by blast
  qed
  show ?thesis
  proof (intro conjI allI impI)
    show "f = [latency t, of_int (round_to_double (input_length t)),
              of_int (round_to_double (errors t))]" by (rule 1)
    show "features_window (fst (analyze_flow env now s t)) = features_window s @ [f]"
      by (rule 2)
    show "telemetry_history (fst (analyze_flow env now s t)) =
           deque_append (SENTINEL_HISTORY_MAX env) (telemetry_history s)
             \<lparr>entry_features = f, entry_telemetry = stamped now t,
              entry_timestamp = (case timestamp t of Some ts \<Rightarrow> ts | None \<Rightarrow> now)\<rparr>"
      by (rule 3)
  next
    fix e assume "detector_ready env (fst (analyze_flow env now s t)) = Inl e"
    then show "snd (snd (analyze_flow env now s t)) = Inl e" by (rule 4)
  next
    assume "detector_ready env (fst (analyze_flow env now s t)) = Inr None"
    then show "snd (snd (analyze_flow env now s t)) = Inr (Some ok_response)" by (rule 5)
  next
    fix m assume "detector_ready env (fst (analyze_flow env now s t)) = Inr (Some m)"
    then show "snd (snd (analyze_flow env now s t)) =
               Inr (Some (case snd (detect env m f (route t)) of
                            Inr (Some r) \<Rightarrow> r | _ \<Rightarrow> ok_response))" by (rule 6)
  next
    fix m d
    assume a: "detector_ready env (fst (analyze_flow env now s t)) = Inr (Some m)
               \<and> decision_function env m f = Inr d \<and> predict env m f = Inr (- 1)"
    from a have a1: "detector_ready env (fst (analyze_flow env now s t)) = Inr (Some m)"
      and a2: "decision_function env m f = Inr d" and a3: "predict env m f = Inr (- 1)"
      by simp_all
    from 7 [OF a1 a2 a3]
    show "\<exists>r. snd (snd (analyze_flow env now s t)) = Inr (Some r)
                \<and> status r = ''THREAT_DETECTED''
                \<and> prediction_score r = Some (- d)
                \<and> confidence r = Some (min (\<bar>d\<bar> * 10) 1)" .
  qed
qed

theorem negative_sample_appended_witness:
  "PROMETHEUS_AVAILABLE demo_env
   \<and> latency negative_sample < 0
   \<and> extract_features negative_sample = Inr [- 100, 512, 0]
   \<and> features_window (fst (analyze_flow demo_env 3 baseline_state negative_sample))
       = features_window baseline_state @ [[- 100, 512, 0]]
   \<and> detector_ready demo_env (fst (analyze_flow demo_env 3 baseline_state negative_sample))
       = Inr (Some (Fitted 50))
   \<and> decision_function demo_env (Fitted 50) [- 100, 512, 0] = Inr (- 3 / 100)
   \<and> predict demo_env (Fitted 50) [- 100, 512, 0] = Inr (- 1)
   \<and> (\<exists>r. snd (snd (analyze_flow demo_env 3 baseline_state negative_sample)) = Inr (Some r)
          \<and> status r = ''THREAT_DETECTED''
          \<and> prediction_score r = Some (3 / 100)
          \<and> confidence r = Some (3 / 10))"
proof -
  have p: "PROMETHEUS_AVAILABLE demo_env" by (simp add: demo_env_def)
  have n: "latency negative_sample < 0 \<or> input_length negative_sample < 0
             \<or> errors negative_sample < 0"
    by (simp add: negative_sample_def)
  have n': "latency negative_sample < 0"
    by (simp add: negative_sample_def)
  have f: "extract_features negative_sample = Inr [- 100, 512, 0]"
    by code_simp
  have r: "detector_ready demo_env (fst (analyze_flow demo_env 3 baseline_state negative_sample))
       = Inr (Some (Fitted 50))"
    by code_simp
  have d: "decision_function demo_env (Fitted 50) [- 100, 512, 0] = Inr (- 3 / 100)"
    by (simp add: demo_env_def)
  have q: "predict demo_env (Fitted 50) [- 100, 512, 0] = Inr (- 1)"
    by (simp add: demo_env_def)
  note th = negative_sample_appended [OF p n f, of 3 baseline_state]
  from th have w: "features_window (fst (analyze_flow demo_env 3 baseline_state negative_sample))
       = features_window baseline_state @ [[- 100, 512, 0]]"
    by blast
  from th r d q have "\<exists>r. snd (snd (analyze_flow demo_env 3 baseline_state negative_sample))
            = Inr (Some r)
          \<and> status r = ''THREAT_DETECTED''
          \<and> prediction_score r = Some (- (- 3 / 100))
          \<and> confidence r = Some (min (\<bar>- 3 / 100 :: real\<bar> * 10) 1)"
    by blast
  then have e: "\<exists>r. snd (snd (analyze_flow demo_env 3 baseline_state negative_sample))
            = Inr (Some r)
          \<and> status r = ''THREAT_DETECTED''
          \<and> prediction_score r = Some (3 / 100)
          \<and> confidence r = Some (3 / 10)"
    by simp
  from p n' f w r d q e show ?thesis by blast
qed




text \<open>
  Claim C7. A request leads to a rebuild exactly when it appends to the window (the metrics
  library is present and \<^verbatim>\<open>extract_features\<close> returns) and the window after its append
  holds a multiple of 50 vectors and at least 10. The length of the window is the
  cumulative count of appends: each appending request adds one, nothing is ever removed,
  and in a run of the service from its start the length is the number of requests that
  appended. A rebuild fits a fresh forest on the whole window, and what is then in place
  does not depend on the forest there was before; a request that leads to no rebuild
  leaves the forest in place as it was.
\<close>

theorem retrain_cadence:
  "rebuilds (log (fst (analyze_flow env now s t))) =
     rebuilds (log s) +
       (if appends env t
           \<and> length (features_window (fst (analyze_flow env now s t))) mod 50 = 0
           \<and> 10 \<le> length (features_window (fst (analyze_flow env now s t)))
        then 1 else 0)
   \<and> (appends env t
        \<and> length (features_window (fst (analyze_flow env now s t))) mod 50 = 0
        \<and> 10 \<le> length (features_window (fst (analyze_flow env now s t)))
       \<longrightarrow> anomaly_detector (fst (analyze_flow env now s t)) =
             Some (fst (fit env (new_forest env)
               (features_window (fst (analyze_flow env now s t))))))
   \<and> (\<not> (appends env t
           \<and> length (features_window (fst (analyze_flow env now s t))) mod 50 = 0
           \<and> 10 \<le> length (features_window (fst (analyze_flow env now s t))))
       \<longrightarrow> anomaly_detector (fst (analyze_flow env now s t)) = anomaly_detector s)
   \<and> length (features_window (fst (analyze_flow env now s t))) =
       length (features_window s) + (if appends env t then 1 else 0)
   \<and> length (features_window (run_requests env init_state rs)) =
       length (filter (\<lambda>r. appends env (snd r)) rs)"
proof (cases "appends env t")
  case False
  then have "fst (analyze_flow env now s t) = s"
    by (rule analyze_flow_not_appending)
  with False show ?thesis
    by (simp add: run_requests_window_length init_state_def)
next
  case True
  then obtain f where p: "PROMETHEUS_AVAILABLE env" and f: "extract_features t = Inr f"
    by (auto simp: appends_iff)
  let ?a = "appended env now s t f"
  have s': "fst (analyze_flow env now s t) = fst (respond env (retrained env ?a) f (route t))"
    using p f by (simp add: analyze_flow_appending)
  have w: "features_window (fst (analyze_flow env now s t)) = features_window ?a"
    unfolding s' by simp
  have r: "rebuilds (log (fst (analyze_flow env now s t))) =
             rebuilds (log s) +
               (if length (features_window ?a) mod 50 = 0 \<and> 10 \<le> length (features_window ?a)
                then 1 else 0)"
    unfolding s' by (simp only: respond_rebuilds retrained_rebuilds appended_log)
  have d: "anomaly_detector (fst (analyze_flow env now s t)) =
             Some (fst (fit env (new_forest env) (features_window ?a)))"
    if "length (features_window ?a) mod 50 = 0" "10 \<le> length (features_window ?a)"
    unfolding s' using retrained_detector [OF that] by simp
  have pos: "0 < length (features_window ?a)"
    by simp
  have n: "anomaly_detector (fst (analyze_flow env now s t)) = anomaly_detector s"
    if "\<not> (length (features_window ?a) mod 50 = 0 \<and> 10 \<le> length (features_window ?a))"
  proof -
    from that have "length (features_window ?a) mod 50 \<noteq> 0"
      unfolding retrain_due [OF pos] .
    then have "retrained env ?a = ?a"
      by (rule retrained_not_due)
    then show ?thesis unfolding s' by simp
  qed
  have c: "length (features_window (run_requests env init_state rs)) =
       length (filter (\<lambda>r. appends env (snd r)) rs)"
    by (simp add: run_requests_window_length init_state_def)
  show ?thesis
    unfolding w
  proof (intro conjI impI)
    show "rebuilds (log (fst (analyze_flow env now s t))) =
             rebuilds (log s) +
               (if appends env t \<and> length (features_window ?a) mod 50 = 0
                   \<and> 10 \<le> length (features_window ?a)
                then 1 else 0)"
      using r True by simp
  next
    assume "appends env t \<and> length (features_window ?a) mod 50 = 0
              \<and> 10 \<le> length (features_window ?a)"
    then show "anomaly_detector (fst (analyze_flow env now s t)) =
             Some (fst (fit env (new_forest env) (features_window ?a)))"
      using d by simp
  next
    assume "\<not> (appends env t \<and> length (features_window ?a) mod 50 = 0
              \<and> 10 \<le> length (features_window ?a))"
    with True have "\<not> (length (features_window ?a) mod 50 = 0
              \<and> 10 \<le> length (features_window ?a))"
      by simp
    then show "anomaly_detector (fst (analyze_flow env now s t)) = anomaly_detector s"
      by (rule n)
  next
    show "length (features_window ?a) = length (features_window s) + (if appends env t then 1 else 0)"
      using True by simp
  next
    show "length (features_window (run_requests env init_state rs)) =
       length (filter (\<lambda>r. appends env (snd r)) rs)"
      by (rule c)
  qed
qed

theorem retrain_cadence_witness:
  "appends demo_env normal_sample
   \<and> length (features_window (fst (analyze_flow demo_env 0
       (run_requests demo_env init_state (replicate 49 (0, normal_sample))) normal_sample)))
     mod 50 = 0
   \<and> 10 \<le> length (features_window (fst (analyze_flow demo_env 0
       (run_requests demo_env init_state (replicate 49 (0, normal_sample))) normal_sample)))
   \<and> rebuilds (log (run_requests demo_env init_state (replicate 49 (0, normal_sample)))) = 0
   \<and> rebuilds (log (fst (analyze_flow demo_env 0
       (run_requests demo_env init_state (replicate 49 (0, normal_sample))) normal_sample))) = 1
   \<and> anomaly_detector (fst (analyze_flow demo_env 0
       (run_requests demo_env init_state (replicate 49 (0, normal_sample))) normal_sample))
      = Some (Fitted 50)
   \<and> \<not> appends demo_env oversized_sample
   \<and> rebuilds (log (fst (analyze_flow demo_env 0 baseline_state oversized_sample)))
      = rebuilds (log baseline_state)
   \<and> anomaly_detector (fst (analyze_flow demo_env 0 baseline_state oversized_sample))
      = anomaly_detector baseline_state"
proof -
  let ?s = "run_requests demo_env init_state (replicate 49 (0, normal_sample))"
  let ?s' = "fst (analyze_flow demo_env 0 ?s normal_sample)"
  note th = retrain_cadence [of demo_env 0 ?s normal_sample "replicate 49 (0, normal_sample)"]
  note th' = retrain_cadence [of demo_env 0 baseline_state oversized_sample "[]"]
  have a: "appends demo_env normal_sample"
    by (rule appends_normal_sample)
  have o: "\<not> appends demo_env oversized_sample"
    by (simp add: appends_bound oversized_sample_def float_overflow_bound_def)
  from th [THEN conjunct2, THEN conjunct2, THEN conjunct2, THEN conjunct2]
  have w0: "length (features_window ?s) = 49"
    using a by simp
  from th [THEN conjunct2, THEN conjunct2, THEN conjunct2, THEN conjunct1]
  have "length (features_window ?s') =
      length (features_window ?s) + (if appends demo_env normal_sample then 1 else 0)" .
  then have w: "length (features_window ?s') = 50"
    using a w0 by simp
  have due: "appends demo_env normal_sample \<and> length (features_window ?s') mod 50 = 0
               \<and> 10 \<le> length (features_window ?s')"
    using a w by simp
  have l: "rebuilds (log ?s) = 0"
    by code_simp
  have f: "fst (fit demo_env (new_forest demo_env) (features_window ?s')) = Fitted 50"
    by code_simp
  from th have "rebuilds (log ?s') = rebuilds (log ?s) +
       (if appends demo_env normal_sample \<and> length (features_window ?s') mod 50 = 0
           \<and> 10 \<le> length (features_window ?s') then 1 else 0)"
    by (rule conjunct1)
  with due l have 1: "rebuilds (log ?s') = 1"
    by simp
  from th [THEN conjunct2, THEN conjunct1, THEN mp, OF due]
  have 2: "anomaly_detector ?s' = Some (Fitted 50)"
    unfolding f .
  from th' have "rebuilds (log (fst (analyze_flow demo_env 0 baseline_state oversized_sample))) =
     rebuilds (log baseline_state) +
       (if appends demo_env oversized_sample
           \<and> length (features_window (fst (analyze_flow demo_env 0 baseline_state oversized_sample)))
               mod 50 = 0
           \<and> 10 \<le> length (features_window
                      (fst (analyze_flow demo_env 0 baseline_state oversized_sample)))
        then 1 else 0)"
    by (rule conjunct1)
  with o have 3: "rebuilds (log (fst (analyze_flow demo_env 0 baseline_state oversized_sample)))
      = rebuilds (log baseline_state)"
    by simp
  have nd: "\<not> (appends demo_env oversized_sample
           \<and> length (features_window (fst (analyze_flow demo_env 0 baseline_state oversized_sample)))
               mod 50 = 0
           \<and> 10 \<le> length (features_window
                      (fst (analyze_flow demo_env 0 baseline_state oversized_sample))))"
    using o by simp
  from th' [THEN conjunct2, THEN conjunct2, THEN conjunct1, THEN mp, OF nd]
  have 4: "anomaly_detector (fst (analyze_flow demo_env 0 baseline_state oversized_sample))
      = anomaly_detector baseline_state" .
  from w have m: "length (features_window ?s') mod 50 = 0" and g: "10 \<le> length (features_window ?s')"
    by simp_all
  from a m g l 1 2 o 3 4 show ?thesis by (intro conjI)
qed

text \<open>
  Claim C8, as stated, fails. The handler computes the confidence from the value of
  \<^verbatim>\<open>decision_function\<close> with the factor 10, and reports the negated value as the score.
  Here the decision value is -0.03: the score reported is 0.03 and the confidence 0.3. The
  formula of the specification with the factor 20 gives 1 for the reported score 0.03, 1
  for the decision value itself, and 0.6 for a score that lies 0.03 off the centre 0.5.
\<close>

theorem confidence_counterexample:
  "snd (snd (analyze_flow demo_env 0 baseline_state anomalous_sample)) =
     Inr (Some \<lparr>status = ''THREAT_DETECTED'', action = Some ''freeze'',
                 reason = Some ''Unusually high latency detected, possible resource exhaustion or DoS attempt'',
                 prediction_score = Some (3 / 100), confidence = Some (3 / 10)\<rparr>)
   \<and> spec_confidence 20 (3 / 100) = 1
   \<and> spec_confidence 20 (- 3 / 100) = 1
   \<and> spec_confidence 20 (1 / 2 + 3 / 100) = 3 / 5"
proof -
  have "snd (snd (analyze_flow demo_env 0 baseline_state anomalous_sample)) =
     Inr (Some \<lparr>status = ''THREAT_DETECTED'', action = Some ''freeze'',
                 reason = Some ''Unusually high latency detected, possible resource exhaustion or DoS attempt'',
                 prediction_score = Some (3 / 100), confidence = Some (3 / 10)\<rparr>)"
    by code_simp
  then show ?thesis
    by (simp add: spec_confidence_def)
qed

text \<open>
  Claim C8, amended: on every \<^verbatim>\<open>THREAT_DETECTED\<close> response, the confidence is
  \<open>min (\<bar>d\<bar> * 10) 1\<close>, where \<open>d\<close> is the value of the detector's
  \<^verbatim>\<open>decision_function\<close> for the sample's features, the factor is the constant 10, and
  the response's \<^verbatim>\<open>prediction_score\<close> is \<open>- d\<close>. So the confidence lies between 0 and 1.
\<close>

theorem confidence_formula:
  assumes "snd (snd (analyze_flow env now s t)) = Inr (Some r)"
    and "status r = ''THREAT_DETECTED''"
  shows "\<exists>m d f. extract_features t = Inr f
           \<and> anomaly_detector (fst (analyze_flow env now s t)) = Some m
           \<and> decision_function env m f = Inr d
           \<and> prediction_score r = Some (- d)
           \<and> confidence r = Some (min (\<bar>d\<bar> * 10) 1)
           \<and> 0 \<le> min (\<bar>d\<bar> * 10) 1 \<and> min (\<bar>d\<bar> * 10) 1 \<le> 1"
proof -
  have p: "PROMETHEUS_AVAILABLE env"
    using assms(1) by (cases "PROMETHEUS_AVAILABLE env") (simp_all add: analyze_flow_idle)
  obtain f where f: "extract_features t = Inr f"
    using assms(1) p by (cases "extract_features t") (simp_all add: analyze_flow_overflow)
  let ?s3 = "retrained env (appended env now s t f)"
  from assms(1) p f have "snd (respond env ?s3 f (route t)) = Inr (Some r)"
    by (simp add: analyze_flow_appending)
  from respond_scored [OF this assms(2)] obtain m where
    m: "anomaly_detector ?s3 = Some m"
    and d: "snd (detect env m f (route t)) = Inr (Some r)"
    by blast
  from detect_confidence [OF d] obtain score where
    sc: "decision_function env m f = Inr score"
      "prediction_score r = Some (- score)"
      "confidence r = Some (min (\<bar>score\<bar> * 10) 1)"
    by blast
  have "anomaly_detector (fst (analyze_flow env now s t)) = Some m"
    using p f m by (simp add: analyze_flow_appending)
  moreover have "0 \<le> min (\<bar>score\<bar> * 10) 1" "min (\<bar>score\<bar> * 10) 1 \<le> 1"
    by simp_all
  ultimately show ?thesis using sc f by blast
qed

theorem confidence_formula_witness:
  "snd (snd (analyze_flow demo_env 0 baseline_state anomalous_sample)) =
     Inr (Some \<lparr>status = ''THREAT_DETECTED'', action = Some ''freeze'',
                 reason = Some ''Unusually high latency detected, possible resource exhaustion or DoS attempt'',
                 prediction_score = Some (3 / 100), confidence = Some (3 / 10)\<rparr>)
   \<and> (\<exists>m d f. extract_features anomalous_sample = Inr f
         \<and> anomaly_detector (fst (analyze_flow demo_env 0 baseline_state anomalous_sample)) = Some m
         \<and> decision_function demo_env m f = Inr d
         \<and> Some (3 / 100) = Some (- d)
         \<and> Some (3 / 10) = Some (min (\<bar>d\<bar> * 10) 1))"
proof -
  let ?r = "\<lparr>status = ''THREAT_DETECTED'', action = Some ''freeze'',
                 reason = Some ''Unusually high latency detected, possible resource exhaustion or DoS attempt'',
                 prediction_score = Some (3 / 100 :: real), confidence = Some (3 / 10 :: real)\<rparr>"
  have a: "snd (snd (analyze_flow demo_env 0 baseline_state anomalous_sample)) = Inr (Some ?r)"
    by code_simp
  have b: "status ?r = ''THREAT_DETECTED''" by simp
  from confidence_formula [OF a b] a show ?thesis by simp
qed

text \<open>
  Claim C9, as stated, fails: a request without a time stamp comes out of the handler with
  its \<^verbatim>\<open>timestamp\<close> set to the current time.
\<close>

theorem timestamp_counterexample:
  "timestamp normal_sample = None
   \<and> timestamp (fst (snd (analyze_flow demo_env 7 init_state normal_sample))) = Some 7"
  by code_simp

text \<open>
  Claim C9, amended: the handler changes no field of the sample other than \<^verbatim>\<open>timestamp\<close>;
  a sample that comes with a time stamp is left as it is; a sample without one has it set
  to the current time when the request gets as far as the appends, that is when the
  metrics library is present and \<^verbatim>\<open>input_length\<close> and \<^verbatim>\<open>errors\<close> are within the range of a
  float; otherwise (the library absent, or \<^verbatim>\<open>extract_features\<close> raising
  \<^verbatim>\<open>OverflowError\<close>) the sample is left as it is.
\<close>

theorem sample_changes_only_timestamp:
  "fst (snd (analyze_flow env now s t)) =
      t\<lparr>timestamp := timestamp (fst (snd (analyze_flow env now s t)))\<rparr>
   \<and> (timestamp t \<noteq> None \<longrightarrow> fst (snd (analyze_flow env now s t)) = t)
   \<and> (timestamp t = None \<and> PROMETHEUS_AVAILABLE env
        \<and> \<bar>input_length t\<bar> < float_overflow_bound \<and> \<bar>errors t\<bar> < float_overflow_bound \<longrightarrow>
        timestamp (fst (snd (analyze_flow env now s t))) = Some now)
   \<and> (\<not> (PROMETHEUS_AVAILABLE env
           \<and> \<bar>input_length t\<bar> < float_overflow_bound \<and> \<bar>errors t\<bar> < float_overflow_bound) \<longrightarrow>
        fst (snd (analyze_flow env now s t)) = t)"
proof (cases "appends env t")
  case False
  then have "\<not> PROMETHEUS_AVAILABLE env \<or> (\<exists>e. extract_features t = Inl e)"
    by (cases "extract_features t") (auto simp: appends_iff)
  then have "fst (snd (analyze_flow env now s t)) = t"
    by (cases "PROMETHEUS_AVAILABLE env") (auto simp: analyze_flow_idle analyze_flow_overflow)
  with False show ?thesis
    by (simp add: appends_bound)
next
  case True
  then obtain f where p: "PROMETHEUS_AVAILABLE env" and f: "extract_features t = Inr f"
    by (auto simp: appends_iff)
  have "fst (snd (analyze_flow env now s t)) = stamped now t"
    using p f by (simp add: analyze_flow_appending)
  with True show ?thesis
    by (simp add: appends_bound stamped_def)
qed

theorem sample_changes_only_timestamp_witness:
  "timestamp anomalous_sample \<noteq> None
   \<and> fst (snd (analyze_flow demo_env 7 baseline_state anomalous_sample)) = anomalous_sample
   \<and> timestamp normal_sample = None \<and> PROMETHEUS_AVAILABLE demo_env
   \<and> \<bar>input_length normal_sample\<bar> < float_overflow_bound
   \<and> \<bar>errors normal_sample\<bar> < float_overflow_bound
   \<and> fst (snd (analyze_flow demo_env 7 baseline_state normal_sample)) =
       normal_sample\<lparr>timestamp := Some 7\<rparr>
   \<and> \<not> \<bar>input_length oversized_sample\<bar> < float_overflow_bound
   \<and> fst (snd (analyze_flow demo_env 7 baseline_state oversized_sample)) = oversized_sample"
proof -
  have a: "timestamp anomalous_sample \<noteq> None" by (simp add: anomalous_sample_def)
  have n: "timestamp normal_sample = None" by (simp add: normal_sample_def)
  have p: "PROMETHEUS_AVAILABLE demo_env" by (simp add: demo_env_def)
  have b: "\<bar>input_length normal_sample\<bar> < float_overflow_bound"
    "\<bar>errors normal_sample\<bar> < float_overflow_bound"
    by (simp_all add: normal_sample_def float_overflow_bound_def)
  have o: "\<not> \<bar>input_length oversized_sample\<bar> < float_overflow_bound"
    by (simp add: oversized_sample_def float_overflow_bound_def)
  let ?t = "fst (snd (analyze_flow demo_env 7 baseline_state normal_sample))"
  note th0 = sample_changes_only_timestamp [of demo_env 7 baseline_state anomalous_sample]
  from th0 [THEN conjunct2, THEN conjunct1, THEN mp, OF a]
  have 1: "fst (snd (analyze_flow demo_env 7 baseline_state anomalous_sample)) = anomalous_sample" .
  note th = sample_changes_only_timestamp [of demo_env 7 baseline_state normal_sample]
  from th have e1: "?t = normal_sample\<lparr>timestamp := timestamp ?t\<rparr>"
    by (rule conjunct1)
  have h: "timestamp normal_sample = None \<and> PROMETHEUS_AVAILABLE demo_env
        \<and> \<bar>input_length normal_sample\<bar> < float_overflow_bound
        \<and> \<bar>errors normal_sample\<bar> < float_overflow_bound"
    using n p b by simp
  from th [THEN conjunct2, THEN conjunct2, THEN conjunct1, THEN mp, OF h]
  have e2: "timestamp ?t = Some 7" .
  from e1 have 2: "?t = normal_sample\<lparr>timestamp := Some 7\<rparr>"
    unfolding e2 .
  note th2 = sample_changes_only_timestamp [of demo_env 7 baseline_state oversized_sample]
  have h2: "\<not> (PROMETHEUS_AVAILABLE demo_env
           \<and> \<bar>input_length oversized_sample\<bar> < float_overflow_bound
           \<and> \<bar>errors oversized_sample\<bar> < float_overflow_bound)"
    using o by simp
  from th2 [THEN conjunct2, THEN conjunct2, THEN conjunct2, THEN mp, OF h2]
  have 3: "fst (snd (analyze_flow demo_env 7 baseline_state oversized_sample)) = oversized_sample" .
  from a 1 n p b 2 o 3 show ?thesis by (intro conjI)
qed

end
